theory Spec2Isabelle
  imports Main
begin

section \<open>The trial activation page (frontend/src/app/activate-trial/page.tsx)\<close>

text \<open>
  The component \<^verbatim>\<open>ActivateTrialPage\<close> reads three hooks on every render:
  \<^verbatim>\<open>useSubscription()\<close> and \<^verbatim>\<open>useTrialStatus()\<close>, each giving \<^verbatim>\<open>data\<close> (undefined
  until a response has arrived, and still undefined when the query failed) and
  \<^verbatim>\<open>isLoading\<close>, and \<^verbatim>\<open>useStartTrial()\<close>, a mutation with \<^verbatim>\<open>mutateAsync\<close> and
  \<^verbatim>\<open>isPending\<close>. It has one effect (the gate, lines 21-38), one asynchronous handler
  (\<^verbatim>\<open>handleStartTrial\<close>, lines 40-54) and two render branches (lines 56-160).
  The hooks themselves are not among the sources: their values are inputs of the model.
\<close>

subsection \<open>Data\<close>

text \<open>
  \<^verbatim>\<open>subscription.tier\<close> is an object with a string \<^verbatim>\<open>name\<close>, or null/absent;
  \<^verbatim>\<open>trialStatus.has_trial\<close> is a boolean and \<^verbatim>\<open>trialStatus.trial_status\<close> a string
  or absent. The code compares \<^verbatim>\<open>trial_status\<close> with string literals, so it is kept
  as a string here: any value outside the five literals is representable.
\<close>

record Tier =
  name :: string

record SubscriptionSnapshot =
  tier :: "Tier option"

record TrialSnapshot =
  has_trial :: bool
  trial_status :: "string option"

record ActivationRequest =
  success_url :: string
  cancel_url :: string

record ActivationResult =
  checkout_url :: "string option"

text \<open>
  A value caught by \<^verbatim>\<open>catch (error: any)\<close>. The handler reads only
  \<^verbatim>\<open>error?.message\<close>: a nullish value has none, an object may or may not carry one.
\<close>

datatype thrown = ThrownNullish | ThrownObject "string option"

text \<open>The promise returned by \<^verbatim>\<open>mutateAsync\<close>, once settled.\<close>

datatype outcome = Resolved ActivationResult | Rejected thrown

text \<open>
  What the browser gives the handler: \<^verbatim>\<open>window.location.origin\<close>, and what the setter
  of \<^verbatim>\<open>window.location.href\<close> does when it is reached (\<open>None\<close>: the navigation
  starts; \<open>Some e\<close>: the assignment throws \<open>e\<close>, as it does for a string that
  does not parse as a URL).
\<close>

record env =
  origin :: string
  href_error :: "thrown option"

text \<open>
  The page: the hook values of the current render, and a log of every effect the
  component has caused so far (requests sent through \<^verbatim>\<open>mutateAsync\<close>, calls of
  \<^verbatim>\<open>router.push\<close>, assignments to \<^verbatim>\<open>window.location.href\<close>, calls of
  \<^verbatim>\<open>toast.error\<close> and of \<^verbatim>\<open>console.error\<close>).
\<close>

record page =
  subscription :: "SubscriptionSnapshot option"
  isLoadingSubscription :: bool
  trialStatus :: "TrialSnapshot option"
  isLoadingTrial :: bool
  isPending :: bool
  requests :: "ActivationRequest list"
  pushes :: "string list"
  hrefs :: "string list"
  toasts :: "string list"
  console :: "(string \<times> thrown) list"

datatype view = Skeleton | TrialOffer bool

datatype GateDecision = Loading | RedirectToDashboard | RedirectToSubscription | OfferTrial

subsection \<open>The gate effect (lines 21-38)\<close>

definition hasActiveTrial :: "TrialSnapshot \<Rightarrow> bool" where
  "hasActiveTrial tr = (has_trial tr \<and> trial_status tr = Some ''active'')"

definition hasUsedTrial :: "TrialSnapshot \<Rightarrow> bool" where
  "hasUsedTrial tr =
     (trial_status tr = Some ''used'' \<or>
      trial_status tr = Some ''expired'' \<or>
      trial_status tr = Some ''cancelled'' \<or>
      trial_status tr = Some ''converted'')"

definition hasActiveSubscription :: "SubscriptionSnapshot \<Rightarrow> bool" where
  "hasActiveSubscription sub =
     (case tier sub of
        None \<Rightarrow> False
      | Some t \<Rightarrow> name t \<noteq> ''none'' \<and> name t \<noteq> ''free'')"

text \<open>
  One run of the effect: the list of \<^verbatim>\<open>router.push\<close> calls it makes. The guard of
  line 22 needs both flags false and both \<^verbatim>\<open>data\<close> values defined; there is no
  \<^verbatim>\<open>else\<close> after the \<^verbatim>\<open>else if\<close> of line 34.
\<close>

definition gate_effect :: "page \<Rightarrow> string list" where
  "gate_effect p =
     (if \<not> isLoadingSubscription p \<and> \<not> isLoadingTrial p then
        (case subscription p of
           None \<Rightarrow> []
         | Some sub \<Rightarrow>
             (case trialStatus p of
                None \<Rightarrow> []
              | Some tr \<Rightarrow>
                  if hasActiveTrial tr \<or> hasActiveSubscription sub then [''/dashboard'']
                  else if hasUsedTrial tr then [''/subscription'']
                  else []))
      else [])"

definition useEffect_gate :: "page \<Rightarrow> page" where
  "useEffect_gate p = p\<lparr>pushes := pushes p @ gate_effect p\<rparr>"

subsection \<open>Rendering (lines 56-160)\<close>

text \<open>
  The skeleton while \<^verbatim>\<open>isLoading\<close>, the trial offer otherwise; the offer's button
  carries \<^verbatim>\<open>disabled={startTrialMutation.isPending}\<close>, which is the argument of
  \<open>TrialOffer\<close>.
\<close>

definition isLoading :: "page \<Rightarrow> bool" where
  "isLoading p = (isLoadingSubscription p \<or> isLoadingTrial p)"

definition render :: "page \<Rightarrow> view" where
  "render p = (if isLoading p then Skeleton else TrialOffer (isPending p))"

text \<open>
  The decision a user observes for one render: the skeleton is \<open>Loading\<close>; otherwise a
  redirect when the effect pushes one, and the offer that is on screen when it pushes
  nothing.
\<close>

definition gate_decision :: "page \<Rightarrow> GateDecision" where
  "gate_decision p =
     (case render p of
        Skeleton \<Rightarrow> Loading
      | TrialOffer _ \<Rightarrow>
          (case gate_effect p of
             [] \<Rightarrow> OfferTrial
           | path # _ \<Rightarrow>
               if path = ''/dashboard'' then RedirectToDashboard else RedirectToSubscription))"

subsection \<open>Starting the trial (lines 40-54 and the button, lines 128-131)\<close>

text \<open>The request literal of lines 42-45.\<close>

definition activation_request :: "env \<Rightarrow> ActivationRequest" where
  "activation_request e =
     \<lparr>success_url = origin e @ ''/dashboard?trial=started'',
      cancel_url = origin e @ ''/activate-trial''\<rparr>"

text \<open>
  Modelled from the spec: the hook \<^verbatim>\<open>useStartTrial\<close> is not among the sources. Its
  \<^verbatim>\<open>isPending\<close> is the in-flight flag of the start-trial request: set when
  \<^verbatim>\<open>mutateAsync\<close> is called, cleared when the request settles.
\<close>

definition mutation_started :: "page \<Rightarrow> page" where
  "mutation_started p = p\<lparr>isPending := True\<rparr>"

definition mutation_settled :: "page \<Rightarrow> page" where
  "mutation_settled p = p\<lparr>isPending := False\<rparr>"

text \<open>
  The synchronous part of the handler, up to the \<^verbatim>\<open>await\<close>: it builds the request and
  hands it to \<^verbatim>\<open>mutateAsync\<close>. Nothing is tested before the call.
\<close>

definition handleStartTrial_call :: "env \<Rightarrow> page \<Rightarrow> page" where
  "handleStartTrial_call e p =
     mutation_started (p\<lparr>requests := requests p @ [activation_request e]\<rparr>)"

text \<open>
  The rest of the \<^verbatim>\<open>try\<close> block once the promise has settled: the page after it and
  the exception it raises, if any. A rejection is raised by \<^verbatim>\<open>await\<close>; a resolved
  result with a truthy \<^verbatim>\<open>checkout_url\<close> (defined and not the empty string) is
  assigned to \<^verbatim>\<open>window.location.href\<close>; any other result does nothing. The result
  is an object, as the mutation's type has it.
\<close>

definition try_block :: "env \<Rightarrow> outcome \<Rightarrow> page \<Rightarrow> page \<times> thrown option" where
  "try_block e out p =
     (case out of
        Rejected err \<Rightarrow> (p, Some err)
      | Resolved result \<Rightarrow>
          (case checkout_url result of
             None \<Rightarrow> (p, None)
           | Some url \<Rightarrow>
               if url \<noteq> [] then
                 (case href_error e of
                    None \<Rightarrow> (p\<lparr>hrefs := hrefs p @ [url]\<rparr>, None)
                  | Some err \<Rightarrow> (p, Some err))
               else (p, None)))"

text \<open>\<^verbatim>\<open>error?.message\<close>, and the operand chosen by \<^verbatim>\<open>||\<close> (the empty string is falsy).\<close>

fun error_message :: "thrown \<Rightarrow> string option" where
  "error_message ThrownNullish = None"
| "error_message (ThrownObject m) = m"

definition fallback_message :: string where
  "fallback_message = ''Failed to start trial. Please try again.''"

definition toast_text :: "thrown \<Rightarrow> string" where
  "toast_text err =
     (case error_message err of
        None \<Rightarrow> fallback_message
      | Some m \<Rightarrow> if m \<noteq> [] then m else fallback_message)"

definition catch_block :: "thrown \<Rightarrow> page \<Rightarrow> page" where
  "catch_block err p =
     p\<lparr>console := console p @ [(''Failed to start trial:'', err)],
       toasts := toasts p @ [toast_text err]\<rparr>"

text \<open>
  The continuation after the \<^verbatim>\<open>await\<close>: the request is no longer in flight, the
  \<^verbatim>\<open>try\<close> block runs and the \<^verbatim>\<open>catch\<close> block takes whatever it raises. The second
  component is the exception that leaves the handler. \<^verbatim>\<open>console.error\<close> and
  \<^verbatim>\<open>toast.error\<close> are taken to return normally.
\<close>

definition handleStartTrial_resume :: "env \<Rightarrow> outcome \<Rightarrow> page \<Rightarrow> page \<times> thrown option" where
  "handleStartTrial_resume e out p =
     (case try_block e out (mutation_settled p) of
        (p', None) \<Rightarrow> (p', None)
      | (p', Some err) \<Rightarrow> (catch_block err p', None))"

text \<open>One whole invocation, from the click to the end of the handler.\<close>

definition handleStartTrial :: "env \<Rightarrow> outcome \<Rightarrow> page \<Rightarrow> page \<times> thrown option" where
  "handleStartTrial e out p = handleStartTrial_resume e out (handleStartTrial_call e p)"

text \<open>
  A click on the button of lines 128-131. What a click does is decided by the view the
  last render produced, not by the hook values of the moment: \<^verbatim>\<open>disabled\<close> is the
  \<^verbatim>\<open>isPending\<close> that render read. There is no button in the skeleton, a button
  rendered disabled does not call \<^verbatim>\<open>onClick\<close>, and a button rendered enabled calls
  \<^verbatim>\<open>handleStartTrial\<close>, which runs on the page as it is now.
\<close>

definition click :: "env \<Rightarrow> view \<Rightarrow> page \<Rightarrow> page" where
  "click e rendered p =
     (case rendered of
        Skeleton \<Rightarrow> p
      | TrialOffer disabled \<Rightarrow> if disabled then p else handleStartTrial_call e p)"

subsection \<open>Concrete pages\<close>

definition no_effects :: page where
  "no_effects =
     \<lparr>subscription = None, isLoadingSubscription = True,
      trialStatus = None, isLoadingTrial = True, isPending = False,
      requests = [], pushes = [], hrefs = [], toasts = [], console = []\<rparr>"

definition settled :: "SubscriptionSnapshot \<Rightarrow> TrialSnapshot \<Rightarrow> page" where
  "settled sub tr =
     no_effects\<lparr>subscription := Some sub, isLoadingSubscription := False,
                trialStatus := Some tr, isLoadingTrial := False\<rparr>"

definition app_env :: env where
  "app_env = \<lparr>origin = ''https://app'', href_error = None\<rparr>"

definition offer_page :: page where
  "offer_page = settled \<lparr>tier = None\<rparr> \<lparr>has_trial = False, trial_status = None\<rparr>"

definition subscription_failed :: page where
  "subscription_failed =
     no_effects\<lparr>isLoadingSubscription := False,
                trialStatus := Some \<lparr>has_trial = False, trial_status = None\<rparr>,
                isLoadingTrial := False\<rparr>"

section \<open>Properties\<close>

lemmas gate_defs = gate_decision_def gate_effect_def render_def isLoading_def
  hasActiveTrial_def hasUsedTrial_def hasActiveSubscription_def

lemmas handler_defs = handleStartTrial_def handleStartTrial_resume_def
  handleStartTrial_call_def mutation_started_def mutation_settled_def
  try_block_def catch_block_def

lemmas concrete_defs = settled_def no_effects_def offer_page_def subscription_failed_def
  app_env_def

subsection \<open>Facts about the handler shared by the claims below\<close>

text \<open>The gate reads the query fields only, and the handler writes none of them.\<close>

lemma gate_reads_queries:
  assumes "subscription q = subscription p"
    and "isLoadingSubscription q = isLoadingSubscription p"
    and "trialStatus q = trialStatus p"
    and "isLoadingTrial q = isLoadingTrial p"
  shows "gate_effect q = gate_effect p" and "gate_decision q = gate_decision p"
  using assms
  by (simp_all add: gate_decision_def gate_effect_def render_def isLoading_def
      split: option.splits)

lemma try_block_queries:
  "subscription (fst (try_block e out p)) = subscription p"
  "isLoadingSubscription (fst (try_block e out p)) = isLoadingSubscription p"
  "trialStatus (fst (try_block e out p)) = trialStatus p"
  "isLoadingTrial (fst (try_block e out p)) = isLoadingTrial p"
  by (simp_all add: try_block_def split: outcome.splits option.splits)

lemma handleStartTrial_queries:
  "subscription (fst (handleStartTrial e out p)) = subscription p"
  "isLoadingSubscription (fst (handleStartTrial e out p)) = isLoadingSubscription p"
  "trialStatus (fst (handleStartTrial e out p)) = trialStatus p"
  "isLoadingTrial (fst (handleStartTrial e out p)) = isLoadingTrial p"
  by (simp_all add: handler_defs split: outcome.splits option.splits)

text \<open>The \<^verbatim>\<open>try\<close> block does raise: on a rejection, and when the navigation throws.\<close>

lemma try_block_raises:
  "snd (try_block e (Rejected err) p) = Some err"
  "url \<noteq> [] \<Longrightarrow>
     snd (try_block (e\<lparr>href_error := Some err\<rparr>) (Resolved \<lparr>checkout_url = Some url\<rparr>) p) = Some err"
  by (simp_all add: try_block_def)

text \<open>
  A resolved request with a non-empty \<^verbatim>\<open>checkout_url\<close>: one assignment to
  \<^verbatim>\<open>window.location.href\<close>, no notification.
\<close>

lemma checkout_navigates:
  assumes "url \<noteq> []" and "href_error e = None"
  shows "hrefs (fst (handleStartTrial e (Resolved \<lparr>checkout_url = Some url\<rparr>) p)) = hrefs p @ [url]"
    and "toasts (fst (handleStartTrial e (Resolved \<lparr>checkout_url = Some url\<rparr>) p)) = toasts p"
  using assms by (simp_all add: handler_defs)

subsection \<open>The gate\<close>

text \<open>
  C2. With both queries settled (neither loading, both with data), the decision follows
  the precedence order: an active trial (\<^verbatim>\<open>has_trial\<close> and status \<^verbatim>\<open>active\<close>) or a tier
  that is present and named neither \<^verbatim>\<open>none\<close> nor \<^verbatim>\<open>free\<close> gives RedirectToDashboard;
  otherwise a status among used, expired, cancelled, converted gives
  RedirectToSubscription; otherwise OfferTrial. The first test wins, so an active
  trial or an entitled subscription beats an exhausted-trial status.
\<close>

theorem gate_precedence:
  assumes "\<not> isLoadingSubscription p" and "\<not> isLoadingTrial p"
    and "subscription p = Some sub" and "trialStatus p = Some tr"
  shows "gate_decision p =
     (if (has_trial tr \<and> trial_status tr = Some ''active'') \<or>
         (\<exists>t. tier sub = Some t \<and> name t \<noteq> ''none'' \<and> name t \<noteq> ''free'')
      then RedirectToDashboard
      else if trial_status tr \<in>
                {Some ''used'', Some ''expired'', Some ''cancelled'', Some ''converted''}
      then RedirectToSubscription
      else OfferTrial)"
  using assms by (cases "tier sub") (simp_all add: gate_defs)

theorem gate_precedence_witness:
  "gate_decision (settled \<lparr>tier = Some \<lparr>name = ''pro''\<rparr>\<rparr>
                          \<lparr>has_trial = True, trial_status = Some ''expired''\<rparr>)
     = RedirectToDashboard
   \<and> gate_decision (settled \<lparr>tier = Some \<lparr>name = ''free''\<rparr>\<rparr>
                            \<lparr>has_trial = True, trial_status = Some ''expired''\<rparr>)
     = RedirectToSubscription
   \<and> gate_decision (settled \<lparr>tier = None\<rparr> \<lparr>has_trial = False, trial_status = None\<rparr>)
     = OfferTrial"
  using
    gate_precedence [of "settled \<lparr>tier = Some \<lparr>name = ''pro''\<rparr>\<rparr>
                                 \<lparr>has_trial = True, trial_status = Some ''expired''\<rparr>"
      "\<lparr>tier = Some \<lparr>name = ''pro''\<rparr>\<rparr>" "\<lparr>has_trial = True, trial_status = Some ''expired''\<rparr>"]
    gate_precedence [of "settled \<lparr>tier = Some \<lparr>name = ''free''\<rparr>\<rparr>
                                 \<lparr>has_trial = True, trial_status = Some ''expired''\<rparr>"
      "\<lparr>tier = Some \<lparr>name = ''free''\<rparr>\<rparr>" "\<lparr>has_trial = True, trial_status = Some ''expired''\<rparr>"]
    gate_precedence [of "settled \<lparr>tier = None\<rparr> \<lparr>has_trial = False, trial_status = None\<rparr>"
      "\<lparr>tier = None\<rparr>" "\<lparr>has_trial = False, trial_status = None\<rparr>"]
  by (simp add: settled_def no_effects_def)

text \<open>
  C3. While either query is pending (its \<^verbatim>\<open>isLoading\<close> flag is set), whatever the
  other one has delivered, the decision is Loading: the effect pushes no route and the
  skeleton is rendered instead of the offer.
\<close>

theorem pending_is_loading:
  assumes "isLoadingSubscription p \<or> isLoadingTrial p"
  shows "gate_decision p = Loading \<and> gate_effect p = [] \<and> render p = Skeleton
         \<and> pushes (useEffect_gate p) = pushes p"
  using assms by (auto simp add: gate_defs useEffect_gate_def)

theorem pending_is_loading_witness:
  "gate_decision (no_effects\<lparr>subscription := Some \<lparr>tier = Some \<lparr>name = ''pro''\<rparr>\<rparr>,
                              isLoadingSubscription := False\<rparr>) = Loading
   \<and> gate_decision (no_effects\<lparr>trialStatus := Some \<lparr>has_trial = True, trial_status = Some ''expired''\<rparr>,
                                isLoadingTrial := False\<rparr>) = Loading
   \<and> gate_decision no_effects = Loading
   \<and> render no_effects = Skeleton"
  using
    pending_is_loading [of "no_effects\<lparr>subscription := Some \<lparr>tier = Some \<lparr>name = ''pro''\<rparr>\<rparr>,
                                        isLoadingSubscription := False\<rparr>"]
    pending_is_loading [of "no_effects\<lparr>trialStatus := Some \<lparr>has_trial = True, trial_status = Some ''expired''\<rparr>,
                                        isLoadingTrial := False\<rparr>"]
    pending_is_loading [of no_effects]
  by (simp add: no_effects_def)

text \<open>
  C4, as the claim states it, fails: with the subscription query finished without data
  and the trial query answering "no trial", the guard of line 22 is false, nothing is
  pushed, and the render (which tests the loading flags only) shows the offer.
\<close>

theorem failed_query_counterexample:
  "\<not> isLoadingSubscription subscription_failed \<and> subscription subscription_failed = None
   \<and> gate_decision subscription_failed = OfferTrial
   \<and> render subscription_failed = TrialOffer False"
  by (simp add: gate_defs subscription_failed_def no_effects_def)

text \<open>
  C4, amended. When a query has finished without data, the gate pushes no redirect; the
  decision is Loading while the other query is still loading and OfferTrial once no
  query is loading.
\<close>

theorem failed_query_offers:
  assumes "(subscription p = None \<and> \<not> isLoadingSubscription p) \<or>
           (trialStatus p = None \<and> \<not> isLoadingTrial p)"
  shows "gate_effect p = [] \<and>
         gate_decision p =
           (if isLoadingSubscription p \<or> isLoadingTrial p then Loading else OfferTrial)"
  using assms by (auto simp add: gate_defs split: option.splits)

theorem failed_query_offers_witness:
  "gate_effect subscription_failed = [] \<and> gate_decision subscription_failed = OfferTrial"
  using failed_query_offers [of subscription_failed]
  by (simp add: subscription_failed_def no_effects_def)

text \<open>
  C8. With both queries settled, a \<^verbatim>\<open>trial_status\<close> that is absent or is none of
  active, used, expired, cancelled, converted, together with a subscription that is not
  entitled (no tier, or a tier named \<^verbatim>\<open>none\<close> or \<^verbatim>\<open>free\<close>), gives OfferTrial and
  no redirect, whatever \<^verbatim>\<open>has_trial\<close> is.
\<close>

theorem unrecognised_status_offers:
  assumes "\<not> isLoadingSubscription p" and "\<not> isLoadingTrial p"
    and "subscription p = Some sub" and "trialStatus p = Some tr"
    and "trial_status tr \<notin> {Some ''active'', Some ''used'', Some ''expired'',
                              Some ''cancelled'', Some ''converted''}"
    and "\<forall>t. tier sub = Some t \<longrightarrow> name t = ''none'' \<or> name t = ''free''"
  shows "gate_decision p = OfferTrial \<and> gate_effect p = []"
  using assms by (cases "tier sub") (simp_all add: gate_defs)

theorem unrecognised_status_offers_witness:
  "gate_decision (settled \<lparr>tier = Some \<lparr>name = ''free''\<rparr>\<rparr>
                          \<lparr>has_trial = True, trial_status = Some ''paused''\<rparr>) = OfferTrial
   \<and> gate_effect (settled \<lparr>tier = None\<rparr> \<lparr>has_trial = True, trial_status = None\<rparr>) = []"
  using
    unrecognised_status_offers [of "settled \<lparr>tier = Some \<lparr>name = ''free''\<rparr>\<rparr>
                                            \<lparr>has_trial = True, trial_status = Some ''paused''\<rparr>"
      "\<lparr>tier = Some \<lparr>name = ''free''\<rparr>\<rparr>" "\<lparr>has_trial = True, trial_status = Some ''paused''\<rparr>"]
    unrecognised_status_offers [of "settled \<lparr>tier = None\<rparr> \<lparr>has_trial = True, trial_status = None\<rparr>"
      "\<lparr>tier = None\<rparr>" "\<lparr>has_trial = True, trial_status = None\<rparr>"]
  by (simp add: settled_def no_effects_def)

text \<open>
  C9. One run of the gate effect makes at most one \<^verbatim>\<open>router.push\<close> call: none, the
  one to \<^verbatim>\<open>/dashboard\<close>, or the one to \<^verbatim>\<open>/subscription\<close>, never both.
\<close>

theorem redirects_exclusive:
  "(gate_effect p = [] \<or> gate_effect p = [''/dashboard''] \<or> gate_effect p = [''/subscription''])
   \<and> length (pushes (useEffect_gate p)) \<le> Suc (length (pushes p))"
  by (simp add: gate_effect_def useEffect_gate_def split: option.splits)

theorem redirects_exclusive_witness:
  "length (pushes (useEffect_gate
     (settled \<lparr>tier = Some \<lparr>name = ''pro''\<rparr>\<rparr>
              \<lparr>has_trial = True, trial_status = Some ''expired''\<rparr>))) \<le> 1"
  using redirects_exclusive [of "settled \<lparr>tier = Some \<lparr>name = ''pro''\<rparr>\<rparr>
                                         \<lparr>has_trial = True, trial_status = Some ''expired''\<rparr>"]
  by (simp add: settled_def no_effects_def)

subsection \<open>Starting the trial\<close>

text \<open>
  C1, as the claim states it, fails: a resolved request whose result has no
  \<^verbatim>\<open>checkout_url\<close> skips the \<^verbatim>\<open>if\<close> of line 47, which has no \<^verbatim>\<open>else\<close>, and the
  \<^verbatim>\<open>catch\<close> block is not entered: there is no navigation and no notification either.
\<close>

theorem missing_url_counterexample:
  "hrefs (fst (handleStartTrial app_env (Resolved \<lparr>checkout_url = None\<rparr>) offer_page)) = []
   \<and> length (toasts (fst (handleStartTrial app_env (Resolved \<lparr>checkout_url = None\<rparr>) offer_page))) \<noteq> 1"
  by (simp add: handler_defs concrete_defs)

text \<open>
  C1, amended. When the request succeeds with a missing or empty \<^verbatim>\<open>checkout_url\<close>,
  the operation performs no navigation and emits no notification: nothing is assigned to
  \<^verbatim>\<open>window.location.href\<close>, nothing is pushed, no toast is shown, nothing is logged,
  and the handler returns normally.
\<close>

theorem missing_url_silent:
  assumes "checkout_url result = None \<or> checkout_url result = Some []"
  shows "hrefs (fst (handleStartTrial e (Resolved result) p)) = hrefs p
       \<and> pushes (fst (handleStartTrial e (Resolved result) p)) = pushes p
       \<and> toasts (fst (handleStartTrial e (Resolved result) p)) = toasts p
       \<and> console (fst (handleStartTrial e (Resolved result) p)) = console p
       \<and> snd (handleStartTrial e (Resolved result) p) = None"
  using assms by (auto simp add: handler_defs)

theorem missing_url_silent_witness:
  "toasts (fst (handleStartTrial app_env (Resolved \<lparr>checkout_url = Some []\<rparr>) offer_page)) = []
   \<and> hrefs (fst (handleStartTrial app_env (Resolved \<lparr>checkout_url = Some []\<rparr>) offer_page)) = []"
  using missing_url_silent [where result = "\<lparr>checkout_url = Some []\<rparr>" and e = app_env
      and p = offer_page]
  by (simp add: concrete_defs)

text \<open>
  C5, as the claim states it, fails: \<^verbatim>\<open>handleStartTrial\<close> tests no flag before it calls
  \<^verbatim>\<open>mutateAsync\<close>. Two clicks on the offer as it was rendered idle, with no render in
  between, both reach the handler: the first puts a request in flight, and the second,
  invoked while it is in flight, sends a second request.
\<close>

theorem second_invocation_counterexample:
  "isPending (click app_env (render offer_page) offer_page)
   \<and> length (requests (click app_env (render offer_page)
                         (click app_env (render offer_page) offer_page))) = 2
   \<and> length (requests (handleStartTrial_call app_env
                         (handleStartTrial_call app_env offer_page))) = 2"
  by (simp add: click_def render_def isLoading_def handleStartTrial_call_def
      mutation_started_def concrete_defs)

text \<open>
  C5, amended. The only guard is the button: on a page last rendered while a request was
  in flight (\<^verbatim>\<open>isPending\<close> true at that render) the button is disabled and a click
  invokes nothing and sends nothing, whatever the page is by then. A click on a button
  rendered enabled invokes \<^verbatim>\<open>handleStartTrial\<close>, and the operation itself checks no
  flag: every invocation sends exactly one request, so \<open>n\<close> invocations in a row
  send \<open>n\<close> requests, in flight or not.
\<close>

theorem rendered_button_gate:
  "(isPending r \<longrightarrow> click e (render r) p = p)
   \<and> (\<not> isLoading r \<and> \<not> isPending r \<longrightarrow> click e (render r) p = handleStartTrial_call e p)
   \<and> requests (handleStartTrial_call e p) = requests p @ [activation_request e]
   \<and> requests ((handleStartTrial_call e ^^ n) p) = requests p @ replicate n (activation_request e)"
proof -
  have gate: "isPending r \<longrightarrow> click e (render r) p = p"
    by (simp add: click_def render_def)
  have enabled: "\<not> isLoading r \<and> \<not> isPending r \<longrightarrow> click e (render r) p = handleStartTrial_call e p"
    by (simp add: click_def render_def)
  have once: "requests (handleStartTrial_call e q) = requests q @ [activation_request e]" for q
    by (simp add: handleStartTrial_call_def mutation_started_def)
  have many: "requests ((handleStartTrial_call e ^^ n) p)
                = requests p @ replicate n (activation_request e)"
    by (induction n) (simp_all add: once replicate_append_same)
  from gate enabled once many show ?thesis by blast
qed

theorem rendered_button_gate_witness:
  "click app_env (render (handleStartTrial_call app_env offer_page))
         (handleStartTrial_call app_env offer_page)
     = handleStartTrial_call app_env offer_page
   \<and> click app_env (render offer_page) (handleStartTrial_call app_env offer_page)
     = handleStartTrial_call app_env (handleStartTrial_call app_env offer_page)
   \<and> length (requests ((handleStartTrial_call app_env ^^ 2) offer_page)) = 2"
  using
    rendered_button_gate [where r = "handleStartTrial_call app_env offer_page" and e = app_env
      and p = "handleStartTrial_call app_env offer_page" and n = 2]
    rendered_button_gate [where r = offer_page and e = app_env
      and p = "handleStartTrial_call app_env offer_page" and n = 2]
    rendered_button_gate [where r = offer_page and e = app_env and p = offer_page and n = 2]
  by (simp add: handleStartTrial_call_def mutation_started_def isLoading_def concrete_defs)

text \<open>
  C6. When the request is rejected, exactly one toast is added: the error's message when
  it has a non-empty one, the fallback text when the message is absent or empty or the
  rejection value is nullish. Nothing is assigned to \<^verbatim>\<open>window.location.href\<close>, nothing
  is pushed, the gate decision is what it was, and when it is OfferTrial the offer is
  rendered with its button enabled again.
\<close>

theorem failure_notifies_once:
  "(m \<noteq> [] \<longrightarrow>
      toasts (fst (handleStartTrial e (Rejected (ThrownObject (Some m))) p)) = toasts p @ [m])
   \<and> toasts (fst (handleStartTrial e (Rejected (ThrownObject (Some []))) p))
       = toasts p @ [''Failed to start trial. Please try again.'']
   \<and> toasts (fst (handleStartTrial e (Rejected (ThrownObject None)) p))
       = toasts p @ [''Failed to start trial. Please try again.'']
   \<and> toasts (fst (handleStartTrial e (Rejected ThrownNullish) p))
       = toasts p @ [''Failed to start trial. Please try again.'']
   \<and> length (toasts (fst (handleStartTrial e (Rejected err) p))) = Suc (length (toasts p))
   \<and> hrefs (fst (handleStartTrial e (Rejected err) p)) = hrefs p
   \<and> pushes (fst (handleStartTrial e (Rejected err) p)) = pushes p
   \<and> gate_decision (fst (handleStartTrial e (Rejected err) p)) = gate_decision p
   \<and> (gate_decision p = OfferTrial \<longrightarrow>
        render (fst (handleStartTrial e (Rejected err) p)) = TrialOffer False)"
proof -
  let ?p' = "fst (handleStartTrial e (Rejected err) p)"
  have decision: "gate_decision ?p' = gate_decision p"
    by (rule gate_reads_queries) (simp_all add: handleStartTrial_queries)
  have idle: "\<not> isPending ?p'"
    by (simp add: handler_defs)
  have loading: "isLoading ?p' = isLoading p"
    by (simp add: isLoading_def handleStartTrial_queries)
  have offer: "gate_decision p = OfferTrial \<longrightarrow> render ?p' = TrialOffer False"
    using idle loading by (simp add: gate_decision_def render_def split: if_splits)
  have texts:
    "m \<noteq> [] \<longrightarrow>
       toasts (fst (handleStartTrial e (Rejected (ThrownObject (Some m))) p)) = toasts p @ [m]"
    "toasts (fst (handleStartTrial e (Rejected (ThrownObject (Some []))) p))
       = toasts p @ [''Failed to start trial. Please try again.'']"
    "toasts (fst (handleStartTrial e (Rejected (ThrownObject None)) p))
       = toasts p @ [''Failed to start trial. Please try again.'']"
    "toasts (fst (handleStartTrial e (Rejected ThrownNullish) p))
       = toasts p @ [''Failed to start trial. Please try again.'']"
    by (simp_all add: handler_defs toast_text_def fallback_message_def)
  have logs:
    "length (toasts ?p') = Suc (length (toasts p))" "hrefs ?p' = hrefs p" "pushes ?p' = pushes p"
    by (simp_all add: handler_defs)
  from texts logs decision offer show ?thesis by blast
qed

theorem failure_notifies_once_witness:
  "toasts (fst (handleStartTrial app_env (Rejected (ThrownObject (Some ''Trial already used''))) offer_page))
     = [''Trial already used'']
   \<and> render (fst (handleStartTrial app_env (Rejected (ThrownObject (Some ''Trial already used''))) offer_page))
     = TrialOffer False"
  using failure_notifies_once [where e = app_env and p = offer_page
      and m = "''Trial already used''" and err = "ThrownObject (Some ''Trial already used'')"]
  by (simp add: gate_defs concrete_defs)

text \<open>
  C7. Every invocation sends one request, whose \<^verbatim>\<open>success_url\<close> is the origin followed
  by \<^verbatim>\<open>/dashboard?trial=started\<close> and whose \<^verbatim>\<open>cancel_url\<close> is the origin followed by
  \<^verbatim>\<open>/activate-trial\<close>; both fields are strings, never absent.
\<close>

theorem request_urls:
  "requests (handleStartTrial_call e p)
     = requests p @ [\<lparr>success_url = origin e @ ''/dashboard?trial=started'',
                      cancel_url = origin e @ ''/activate-trial''\<rparr>]
   \<and> requests (fst (handleStartTrial e out p)) = requests (handleStartTrial_call e p)"
  by (simp add: handler_defs activation_request_def split: outcome.splits option.splits)

theorem request_urls_witness:
  "requests (fst (handleStartTrial app_env
                    (Resolved \<lparr>checkout_url = Some ''https://billing/session/1''\<rparr>) offer_page))
     = [\<lparr>success_url = ''https://app/dashboard?trial=started'',
         cancel_url = ''https://app/activate-trial''\<rparr>]"
  using request_urls [where e = app_env and p = offer_page
      and out = "Resolved \<lparr>checkout_url = Some ''https://billing/session/1''\<rparr>"]
  by (simp add: concrete_defs)

text \<open>
  C10. No exception leaves \<^verbatim>\<open>handleStartTrial\<close>, whatever the request's outcome and
  whatever the navigation does: a rejected request and a throwing assignment to
  \<^verbatim>\<open>window.location.href\<close> both end in the \<^verbatim>\<open>catch\<close> block, which shows one toast.
\<close>

theorem handler_total:
  "snd (handleStartTrial e out p) = None
   \<and> toasts (fst (handleStartTrial e (Rejected err) p)) = toasts p @ [toast_text err]
   \<and> (url \<noteq> [] \<longrightarrow>
        toasts (fst (handleStartTrial (e\<lparr>href_error := Some err\<rparr>)
                       (Resolved \<lparr>checkout_url = Some url\<rparr>) p)) = toasts p @ [toast_text err]
        \<and> hrefs (fst (handleStartTrial (e\<lparr>href_error := Some err\<rparr>)
                        (Resolved \<lparr>checkout_url = Some url\<rparr>) p)) = hrefs p)"
  by (simp add: handler_defs split: outcome.splits option.splits)

theorem handler_total_witness:
  "snd (handleStartTrial app_env (Rejected ThrownNullish) offer_page) = None
   \<and> toasts (fst (handleStartTrial (app_env\<lparr>href_error := Some (ThrownObject (Some ''Invalid URL''))\<rparr>)
                     (Resolved \<lparr>checkout_url = Some ''x''\<rparr>) offer_page)) = [''Invalid URL'']"
  using handler_total [where e = app_env and out = "Rejected ThrownNullish" and p = offer_page]
    handler_total [where e = app_env and url = "''x''" and p = offer_page
      and err = "ThrownObject (Some ''Invalid URL'')"]
  by (simp add: toast_text_def concrete_defs)

end
